theory Spec2Isabelle
  imports Main
begin

section \<open>Entity records\<close>

text \<open>
  The three entity classes of \<^verbatim>\<open>res_system.py\<close>. Each is a plain bundle of
  attributes; a row of the table of the same name carries the same columns in the same
  order, so \<^verbatim>\<open>Hotel(*result)\<close> turns a row into the record with the same fields.
  The attribute \<^verbatim>\<open>name\<close> exists in two classes and \<^verbatim>\<open>hotel_id\<close>,
  \<^verbatim>\<open>customer_id\<close> exist in the reservation as well, so those fields carry the
  class as a prefix here.
\<close>

record Hotel =
  hotel_id :: int
  hotel_name :: string
  location :: string

record Customer =
  customer_id :: int
  customer_name :: string
  email :: string

record Reservation =
  reservation_id :: int
  res_hotel_id :: int
  res_customer_id :: int
  check_in_date :: string
  nights :: int

section \<open>Storage state and exceptions\<close>

text \<open>
  The state behind one \<^verbatim>\<open>DatabaseHandler\<close>: the connection setting
  \<^verbatim>\<open>foreign_keys\<close>, and for each table its rows in rowid order together with the
  counter that \<^verbatim>\<open>AUTOINCREMENT\<close> keeps for it (the largest rowid the table has
  ever held). All columns are declared \<^verbatim>\<open>NOT NULL\<close>, so a stored row never holds
  a NULL and is a record of the entity type.

  Arguments of the methods are Python values: a text argument is \<open>None\<close> or a
  \<^verbatim>\<open>str\<close>, an integer argument of a create or update is \<open>None\<close> or an
  \<^verbatim>\<open>int\<close> (\<open>None\<close> is what the create methods take by default, and what
  SQLite stores as NULL). A Python \<^verbatim>\<open>int\<close> is unbounded; what becomes of one
  that SQLite cannot hold is said under binding, below.
\<close>

record database =
  foreign_keys :: bool
  Hotel_rows :: "Hotel list"
  Hotel_seq :: int
  Customer_rows :: "Customer list"
  Customer_seq :: int
  Reservation_rows :: "Reservation list"
  Reservation_seq :: int

datatype exn =
  IntegrityError | OperationalError | ValueError | AttributeError | OverflowError

text \<open>
  A method returns its outcome (\<open>Inl\<close> an exception that reaches the caller,
  \<open>Inr\<close> the returned value) together with the state it leaves behind.
\<close>

type_synonym 'a outcome = "(exn + 'a) \<times> database"

section \<open>Binding arguments\<close>

text \<open>
  \<^verbatim>\<open>cursor.execute(sql, parameters)\<close> binds every parameter before the statement
  runs. An INTEGER of SQLite is a signed 64-bit value: binding a Python \<^verbatim>\<open>int\<close>
  outside that range raises \<^verbatim>\<open>OverflowError\<close>, and the statement does not run.
  \<open>None\<close> binds as NULL and a \<^verbatim>\<open>str\<close> as TEXT, whatever their value.
\<close>

definition int64 :: "int \<Rightarrow> bool" where
  "int64 i \<longleftrightarrow> - (2 ^ 63) \<le> i \<and> i < 2 ^ 63"

definition binds :: "int option \<Rightarrow> bool" where
  "binds v = (case v of None \<Rightarrow> True | Some i \<Rightarrow> int64 i)"

section \<open>Construction\<close>

text \<open>
  \<^verbatim>\<open>sqlite3.connect\<close> on a new database: no tables yet, foreign keys not enforced
  (the default of SQLite).
\<close>

definition connect :: database where
  "connect = \<lparr>foreign_keys = False,
              Hotel_rows = [], Hotel_seq = 0,
              Customer_rows = [], Customer_seq = 0,
              Reservation_rows = [], Reservation_seq = 0\<rparr>"

text \<open>
  A \<^verbatim>\<open>PRAGMA name = value\<close> statement. SQLite knows \<^verbatim>\<open>foreign_keys\<close>; a
  pragma of a name it does not know is ignored without an error, and
  \<^verbatim>\<open>SQLITE_ALLOW_EMPTY_STRING\<close> is no pragma of SQLite.
\<close>

definition pragma :: "database \<Rightarrow> string \<Rightarrow> int \<Rightarrow> database" where
  "pragma db pname v =
     (if pname = ''foreign_keys'' then db\<lparr>foreign_keys := (v \<noteq> 0)\<rparr> else db)"

text \<open>
  \<^verbatim>\<open>CREATE TABLE IF NOT EXISTS\<close> for the three tables: on the state model the
  tables are always there, holding what they held.
\<close>

definition create_tables_if_not_exist :: "database \<Rightarrow> database" where
  "create_tables_if_not_exist db = db"

definition DatabaseHandler :: database where
  "DatabaseHandler =
     create_tables_if_not_exist
       (pragma (pragma connect ''foreign_keys'' 1) ''SQLITE_ALLOW_EMPTY_STRING'' 0)"

section \<open>The statements the handler executes\<close>

text \<open>
  The rowid an \<^verbatim>\<open>AUTOINCREMENT\<close> key gives to a new row: one more than the largest
  rowid the table holds or has ever held. (SQLite refuses the insert once that largest
  rowid is \<open>2 ^ 63 - 1\<close>; the counter is not bounded here, a table of a handler on a
  new database being \<open>2 ^ 63 - 1\<close> successful inserts away from it.)
\<close>

definition next_rowid :: "int \<Rightarrow> int list \<Rightarrow> int" where
  "next_rowid seq ids = fold max ids seq + 1"

text \<open>
  \<^verbatim>\<open>INSERT INTO Hotel (NAME, LOCATION) VALUES (?, ?)\<close>. A NULL in a
  \<^verbatim>\<open>NOT NULL\<close> column or a value already present in a \<^verbatim>\<open>UNIQUE\<close> column
  raises \<^verbatim>\<open>sqlite3.IntegrityError\<close> and the statement changes nothing. Otherwise the
  row is stored; the result is \<^verbatim>\<open>cursor.lastrowid\<close> with the values bound, as a row.
\<close>

definition insert_hotel :: "database \<Rightarrow> string option \<Rightarrow> string option \<Rightarrow> Hotel outcome" where
  "insert_hotel db name loc =
     (case (name, loc) of
        (Some n, Some l) \<Rightarrow>
          if list_ex (\<lambda>h. hotel_name h = n) (Hotel_rows db)
             \<or> list_ex (\<lambda>h. location h = l) (Hotel_rows db)
          then (Inl IntegrityError, db)
          else
            let lastrowid = next_rowid (Hotel_seq db) (map hotel_id (Hotel_rows db));
                row = \<lparr>hotel_id = lastrowid, hotel_name = n, location = l\<rparr>
            in (Inr row, db\<lparr>Hotel_rows := Hotel_rows db @ [row], Hotel_seq := lastrowid\<rparr>)
      | _ \<Rightarrow> (Inl IntegrityError, db))"

text \<open>\<^verbatim>\<open>INSERT INTO Customer (NAME, EMAIL) VALUES (?, ?)\<close>: only EMAIL is unique.\<close>

definition insert_customer :: "database \<Rightarrow> string option \<Rightarrow> string option \<Rightarrow> Customer outcome" where
  "insert_customer db name mail =
     (case (name, mail) of
        (Some n, Some e) \<Rightarrow>
          if list_ex (\<lambda>c. email c = e) (Customer_rows db)
          then (Inl IntegrityError, db)
          else
            let lastrowid = next_rowid (Customer_seq db) (map customer_id (Customer_rows db));
                row = \<lparr>customer_id = lastrowid, customer_name = n, email = e\<rparr>
            in (Inr row, db\<lparr>Customer_rows := Customer_rows db @ [row], Customer_seq := lastrowid\<rparr>)
      | _ \<Rightarrow> (Inl IntegrityError, db))"

text \<open>
  \<^verbatim>\<open>INSERT INTO Reservation (HOTEL_ID, CUSTOMER_ID, DATE, NIGHTS) VALUES (?, ?, ?, ?)\<close>.
  The three integer parameters are bound first. With foreign keys enforced, HOTEL_ID
  and CUSTOMER_ID must be the ID of a row of Hotel and of Customer.
\<close>

definition insert_reservation ::
  "database \<Rightarrow> int option \<Rightarrow> int option \<Rightarrow> string option \<Rightarrow> int option \<Rightarrow> Reservation outcome" where
  "insert_reservation db hid cid date n =
     (if \<not> (binds hid \<and> binds cid \<and> binds n) then (Inl OverflowError, db)
      else case (hid, cid, date, n) of
        (Some h, Some c, Some d, Some k) \<Rightarrow>
          if foreign_keys db
             \<and> \<not> (list_ex (\<lambda>x. hotel_id x = h) (Hotel_rows db)
                  \<and> list_ex (\<lambda>x. customer_id x = c) (Customer_rows db))
          then (Inl IntegrityError, db)
          else
            let lastrowid = next_rowid (Reservation_seq db)
                              (map reservation_id (Reservation_rows db));
                row = \<lparr>reservation_id = lastrowid, res_hotel_id = h, res_customer_id = c,
                       check_in_date = d, nights = k\<rparr>
            in (Inr row, db\<lparr>Reservation_rows := Reservation_rows db @ [row],
                             Reservation_seq := lastrowid\<rparr>)
      | _ \<Rightarrow> (Inl IntegrityError, db))"

text \<open>
  \<^verbatim>\<open>UPDATE Hotel SET NAME = ?, LOCATION = ? WHERE ID = ?\<close>. The ID is bound
  first. When no row has the ID nothing is written and nothing is checked. Otherwise the
  new values go through the column constraints, uniqueness being against the other rows.
\<close>

definition update_hotel_stmt ::
  "database \<Rightarrow> string option \<Rightarrow> string option \<Rightarrow> int \<Rightarrow> unit outcome" where
  "update_hotel_stmt db name loc hid =
     (if \<not> int64 hid then (Inl OverflowError, db)
      else if \<not> list_ex (\<lambda>h. hotel_id h = hid) (Hotel_rows db) then (Inr (), db)
      else case (name, loc) of
        (Some n, Some l) \<Rightarrow>
          if list_ex (\<lambda>h. hotel_id h \<noteq> hid \<and> (hotel_name h = n \<or> location h = l)) (Hotel_rows db)
          then (Inl IntegrityError, db)
          else (Inr (), db\<lparr>Hotel_rows :=
                  map (\<lambda>h. if hotel_id h = hid then h\<lparr>hotel_name := n, location := l\<rparr> else h)
                      (Hotel_rows db)\<rparr>)
      | _ \<Rightarrow> (Inl IntegrityError, db))"

text \<open>\<^verbatim>\<open>UPDATE Customer SET name = ?, email = ? WHERE ID = ?\<close>\<close>

definition update_customer_stmt ::
  "database \<Rightarrow> string option \<Rightarrow> string option \<Rightarrow> int \<Rightarrow> unit outcome" where
  "update_customer_stmt db name mail cid =
     (if \<not> int64 cid then (Inl OverflowError, db)
      else if \<not> list_ex (\<lambda>c. customer_id c = cid) (Customer_rows db) then (Inr (), db)
      else case (name, mail) of
        (Some n, Some e) \<Rightarrow>
          if list_ex (\<lambda>c. customer_id c \<noteq> cid \<and> email c = e) (Customer_rows db)
          then (Inl IntegrityError, db)
          else (Inr (), db\<lparr>Customer_rows :=
                  map (\<lambda>c. if customer_id c = cid then c\<lparr>customer_name := n, email := e\<rparr> else c)
                      (Customer_rows db)\<rparr>)
      | _ \<Rightarrow> (Inl IntegrityError, db))"

text \<open>
  \<^verbatim>\<open>UPDATE Reservation SET HOTEL_ID = ?, CUSTOMER_ID = ?, DATE = ?, NIGHTS = ? WHERE ID = ?\<close>
\<close>

definition update_reservation_stmt ::
  "database \<Rightarrow> int option \<Rightarrow> int option \<Rightarrow> string option \<Rightarrow> int option \<Rightarrow> int \<Rightarrow> unit outcome" where
  "update_reservation_stmt db hid cid date n rid =
     (if \<not> (binds hid \<and> binds cid \<and> binds n \<and> int64 rid) then (Inl OverflowError, db)
      else if \<not> list_ex (\<lambda>r. reservation_id r = rid) (Reservation_rows db) then (Inr (), db)
      else case (hid, cid, date, n) of
        (Some h, Some c, Some d, Some k) \<Rightarrow>
          if foreign_keys db
             \<and> \<not> (list_ex (\<lambda>x. hotel_id x = h) (Hotel_rows db)
                  \<and> list_ex (\<lambda>x. customer_id x = c) (Customer_rows db))
          then (Inl IntegrityError, db)
          else (Inr (), db\<lparr>Reservation_rows :=
                  map (\<lambda>r. if reservation_id r = rid
                            then r\<lparr>res_hotel_id := h, res_customer_id := c,
                                   check_in_date := d, nights := k\<rparr>
                            else r)
                      (Reservation_rows db)\<rparr>)
      | _ \<Rightarrow> (Inl IntegrityError, db))"

text \<open>
  \<^verbatim>\<open>DELETE FROM Hotel WHERE ID = ?\<close>. Both foreign keys of Reservation are
  \<^verbatim>\<open>ON DELETE RESTRICT\<close>: with foreign keys enforced, deleting a row that a
  reservation refers to raises \<^verbatim>\<open>sqlite3.IntegrityError\<close> and deletes nothing.
\<close>

definition delete_hotel_stmt :: "database \<Rightarrow> int \<Rightarrow> unit outcome" where
  "delete_hotel_stmt db hid =
     (if \<not> int64 hid then (Inl OverflowError, db)
      else if foreign_keys db
         \<and> list_ex (\<lambda>h. hotel_id h = hid) (Hotel_rows db)
         \<and> list_ex (\<lambda>r. res_hotel_id r = hid) (Reservation_rows db)
      then (Inl IntegrityError, db)
      else (Inr (), db\<lparr>Hotel_rows := filter (\<lambda>h. hotel_id h \<noteq> hid) (Hotel_rows db)\<rparr>))"

definition delete_customer_stmt :: "database \<Rightarrow> int \<Rightarrow> unit outcome" where
  "delete_customer_stmt db cid =
     (if \<not> int64 cid then (Inl OverflowError, db)
      else if foreign_keys db
         \<and> list_ex (\<lambda>c. customer_id c = cid) (Customer_rows db)
         \<and> list_ex (\<lambda>r. res_customer_id r = cid) (Reservation_rows db)
      then (Inl IntegrityError, db)
      else (Inr (), db\<lparr>Customer_rows := filter (\<lambda>c. customer_id c \<noteq> cid) (Customer_rows db)\<rparr>))"

text \<open>\<^verbatim>\<open>DELETE FROM Reservation WHERE ID = ?\<close>: no table refers to a reservation.\<close>

definition delete_reservation_stmt :: "database \<Rightarrow> int \<Rightarrow> unit outcome" where
  "delete_reservation_stmt db rid =
     (if \<not> int64 rid then (Inl OverflowError, db)
      else (Inr (), db\<lparr>Reservation_rows :=
                         filter (\<lambda>r. reservation_id r \<noteq> rid) (Reservation_rows db)\<rparr>))"

section \<open>Lookup methods\<close>

text \<open>
  Each lookup runs a \<^verbatim>\<open>SELECT * FROM T WHERE COLUMN = ?\<close> and takes
  \<^verbatim>\<open>fetchone()\<close>: the first row with that value, built into the entity, or
  \<open>None\<close>. A lookup writes nothing, so it returns its result alone. A lookup by id
  binds an integer and so may raise; a lookup by name or email binds a string.
\<close>

definition get_hotel_by_id :: "database \<Rightarrow> int \<Rightarrow> exn + Hotel option" where
  "get_hotel_by_id db hid =
     (if \<not> int64 hid then Inl OverflowError
      else Inr (find (\<lambda>h. hotel_id h = hid) (Hotel_rows db)))"

definition get_customer_by_id :: "database \<Rightarrow> int \<Rightarrow> exn + Customer option" where
  "get_customer_by_id db cid =
     (if \<not> int64 cid then Inl OverflowError
      else Inr (find (\<lambda>c. customer_id c = cid) (Customer_rows db)))"

definition get_reservation_by_id :: "database \<Rightarrow> int \<Rightarrow> exn + Reservation option" where
  "get_reservation_by_id db rid =
     (if \<not> int64 rid then Inl OverflowError
      else Inr (find (\<lambda>r. reservation_id r = rid) (Reservation_rows db)))"

definition get_hotel_by_name :: "database \<Rightarrow> string \<Rightarrow> Hotel option" where
  "get_hotel_by_name db n = find (\<lambda>h. hotel_name h = n) (Hotel_rows db)"

definition get_customer_by_email :: "database \<Rightarrow> string \<Rightarrow> Customer option" where
  "get_customer_by_email db e = find (\<lambda>c. email c = e) (Customer_rows db)"

text \<open>
  The statement of \<^verbatim>\<open>get_reservation_by_details\<close> is the concatenation of two
  string literals, as written in the source.
\<close>

definition reservation_by_details_sql :: string where
  "reservation_by_details_sql =
     ''SELECT * FROM Reservation WHERE'' @ ''HOTEL_ID = ? AND CUSTOMER_ID = ? AND DATE = ?''"

text \<open>The words of a statement: its maximal runs of characters other than the space.\<close>

fun sql_words :: "string \<Rightarrow> string \<Rightarrow> string list" where
  "sql_words w [] = (if w = [] then [] else [w])"
| "sql_words w (c # cs) =
     (if c = CHR '' '' then (if w = [] then sql_words [] cs else w # sql_words [] cs)
      else sql_words (w @ [c]) cs)"

text \<open>
  Preparing the statement. SQLite reads it as the intended query when its words are
  those of \<^verbatim>\<open>SELECT * FROM Reservation WHERE HOTEL_ID = ? AND CUSTOMER_ID = ? AND DATE = ?\<close>.
  A keyword that runs into the next word is one identifier: after the table name it is
  read as an alias, and the \<^verbatim>\<open>=\<close> that follows is a syntax error, which
  \<^verbatim>\<open>sqlite3\<close> raises as \<^verbatim>\<open>OperationalError\<close>. The statement is
  prepared before its parameters are bound.
\<close>

definition select_reservation_by_details ::
  "database \<Rightarrow> string \<Rightarrow> int \<Rightarrow> int \<Rightarrow> string \<Rightarrow> exn + Reservation option" where
  "select_reservation_by_details db sql hid cid date =
     (if sql_words [] sql =
           [''SELECT'', ''*'', ''FROM'', ''Reservation'', ''WHERE'',
            ''HOTEL_ID'', ''='', ''?'', ''AND'', ''CUSTOMER_ID'', ''='', ''?'', ''AND'',
            ''DATE'', ''='', ''?'']
      then (if \<not> (int64 hid \<and> int64 cid) then Inl OverflowError
            else Inr (find (\<lambda>r. res_hotel_id r = hid \<and> res_customer_id r = cid
                                  \<and> check_in_date r = date)
                           (Reservation_rows db)))
      else Inl OperationalError)"

text \<open>
  \<^verbatim>\<open>hotel.hotel_id\<close> and \<^verbatim>\<open>customer.customer_id\<close> are evaluated, in this
  order, before the statement is executed; on \<open>None\<close> the attribute access raises
  \<^verbatim>\<open>AttributeError\<close>.
\<close>

definition get_reservation_by_details ::
  "database \<Rightarrow> string \<Rightarrow> string \<Rightarrow> string \<Rightarrow> exn + Reservation option" where
  "get_reservation_by_details db hname cemail date =
     (let hotel = get_hotel_by_name db hname;
          customer = get_customer_by_email db cemail
      in case hotel of
           None \<Rightarrow> Inl AttributeError
         | Some h \<Rightarrow>
             (case customer of
                None \<Rightarrow> Inl AttributeError
              | Some c \<Rightarrow>
                  select_reservation_by_details db reservation_by_details_sql
                    (hotel_id h) (customer_id c) date))"

section \<open>Create, update and delete methods\<close>

text \<open>
  \<^verbatim>\<open>try: ... except sqlite3.IntegrityError: ... return None\<close>: an
  \<^verbatim>\<open>IntegrityError\<close> of the statement becomes the result \<open>None\<close>, any other
  exception (\<^verbatim>\<open>OverflowError\<close> is no \<^verbatim>\<open>sqlite3.IntegrityError\<close>) goes on
  to the caller.
\<close>

definition except_IntegrityError :: "'a outcome \<Rightarrow> 'a option outcome" where
  "except_IntegrityError r =
     (case r of
        (Inr x, db) \<Rightarrow> (Inr (Some x), db)
      | (Inl IntegrityError, db) \<Rightarrow> (Inr None, db)
      | (Inl e, db) \<Rightarrow> (Inl e, db))"

definition create_hotel :: "database \<Rightarrow> string option \<Rightarrow> string option \<Rightarrow> Hotel option outcome" where
  "create_hotel db name loc = except_IntegrityError (insert_hotel db name loc)"

definition create_customer ::
  "database \<Rightarrow> string option \<Rightarrow> string option \<Rightarrow> Customer option outcome" where
  "create_customer db name mail = except_IntegrityError (insert_customer db name mail)"

definition create_reservation ::
  "database \<Rightarrow> int option \<Rightarrow> int option \<Rightarrow> string option \<Rightarrow> int option
     \<Rightarrow> Reservation option outcome" where
  "create_reservation db hid cid date n =
     except_IntegrityError (insert_reservation db hid cid date n)"

text \<open>The update methods execute their statement and commit; nothing is caught.\<close>

definition update_hotel :: "database \<Rightarrow> int \<Rightarrow> string option \<Rightarrow> string option \<Rightarrow> unit outcome" where
  "update_hotel db hid name loc = update_hotel_stmt db name loc hid"

definition update_customer ::
  "database \<Rightarrow> int \<Rightarrow> string option \<Rightarrow> string option \<Rightarrow> unit outcome" where
  "update_customer db cid name mail = update_customer_stmt db name mail cid"

definition update_reservation ::
  "database \<Rightarrow> int \<Rightarrow> int option \<Rightarrow> int option \<Rightarrow> string option \<Rightarrow> int option \<Rightarrow> unit outcome" where
  "update_reservation db rid hid cid date n = update_reservation_stmt db hid cid date n rid"

text \<open>
  The delete methods look the entity up first (an exception of the lookup goes on to
  the caller) and raise \<^verbatim>\<open>ValueError\<close> when the lookup gives \<open>None\<close> (an
  entity object is always true); then they execute the \<^verbatim>\<open>DELETE\<close>, catching
  nothing.
\<close>

definition delete_hotel :: "database \<Rightarrow> int \<Rightarrow> unit outcome" where
  "delete_hotel db hid =
     (case get_hotel_by_id db hid of
        Inl e \<Rightarrow> (Inl e, db)
      | Inr None \<Rightarrow> (Inl ValueError, db)
      | Inr (Some _) \<Rightarrow> delete_hotel_stmt db hid)"

definition delete_customer :: "database \<Rightarrow> int \<Rightarrow> unit outcome" where
  "delete_customer db cid =
     (case get_customer_by_id db cid of
        Inl e \<Rightarrow> (Inl e, db)
      | Inr None \<Rightarrow> (Inl ValueError, db)
      | Inr (Some _) \<Rightarrow> delete_customer_stmt db cid)"

definition delete_reservation :: "database \<Rightarrow> int \<Rightarrow> unit outcome" where
  "delete_reservation db rid =
     (case get_reservation_by_id db rid of
        Inl e \<Rightarrow> (Inl e, db)
      | Inr None \<Rightarrow> (Inl ValueError, db)
      | Inr (Some _) \<Rightarrow> delete_reservation_stmt db rid)"

section \<open>Reachable states\<close>

text \<open>
  A call of a mutating method with its arguments. The states a handler on a new
  database can be in are those left by a sequence of such calls, whatever each call
  returned or raised (a caller may catch the exception and go on).
\<close>

datatype call =
    CreateHotel "string option" "string option"
  | CreateCustomer "string option" "string option"
  | CreateReservation "int option" "int option" "string option" "int option"
  | UpdateHotel int "string option" "string option"
  | UpdateCustomer int "string option" "string option"
  | UpdateReservation int "int option" "int option" "string option" "int option"
  | DeleteHotel int
  | DeleteCustomer int
  | DeleteReservation int

fun step :: "database \<Rightarrow> call \<Rightarrow> database" where
  "step db (CreateHotel n l) = snd (create_hotel db n l)"
| "step db (CreateCustomer n e) = snd (create_customer db n e)"
| "step db (CreateReservation h c d k) = snd (create_reservation db h c d k)"
| "step db (UpdateHotel i n l) = snd (update_hotel db i n l)"
| "step db (UpdateCustomer i n e) = snd (update_customer db i n e)"
| "step db (UpdateReservation i h c d k) = snd (update_reservation db i h c d k)"
| "step db (DeleteHotel i) = snd (delete_hotel db i)"
| "step db (DeleteCustomer i) = snd (delete_customer db i)"
| "step db (DeleteReservation i) = snd (delete_reservation db i)"

definition run :: "call list \<Rightarrow> database" where
  "run calls = foldl step DatabaseHandler calls"

text \<open>
  The state the tests build before they update or delete (a hotel, a customer and a
  reservation of the one at the other), with a second hotel that nothing refers to.
\<close>

definition booked :: database where
  "booked = run [CreateHotel (Some ''Hotel A'') (Some ''Location A''),
                 CreateHotel (Some ''Hotel B'') (Some ''Location B''),
                 CreateCustomer (Some ''John Doe'') (Some ''john@example.com''),
                 CreateReservation (Some 1) (Some 1) (Some ''2024-02-20'') (Some 5)]"


section \<open>Unfolding rules\<close>

lemmas construct_defs = DatabaseHandler_def create_tables_if_not_exist_def pragma_def connect_def
lemmas create_defs = create_hotel_def create_customer_def create_reservation_def
  except_IntegrityError_def insert_hotel_def insert_customer_def insert_reservation_def
lemmas update_defs = update_hotel_def update_customer_def update_reservation_def
  update_hotel_stmt_def update_customer_stmt_def update_reservation_stmt_def
lemmas delete_defs = delete_hotel_def delete_customer_def delete_reservation_def
  delete_hotel_stmt_def delete_customer_stmt_def delete_reservation_stmt_def
lemmas get_defs = get_hotel_by_id_def get_customer_by_id_def get_reservation_by_id_def
  get_hotel_by_name_def get_customer_by_email_def

section \<open>Row identifiers\<close>

lemma fold_max_ge_seq: "seq \<le> fold max ids (seq::int)"
  by (induction ids arbitrary: seq) (auto intro: order_trans[OF max.cobounded2])



lemma next_rowid_gt_seq: "seq < next_rowid seq ids"
  using fold_max_ge_seq[of seq ids] by (simp add: next_rowid_def)

lemma find_None_image: "find (\<lambda>x. f x = k) xs = None \<longleftrightarrow> k \<notin> f ` set xs"
  by (auto simp: find_None_iff)

section \<open>What each create does\<close>

lemma create_hotel_ok:
  assumes "n \<notin> hotel_name ` set (Hotel_rows db)" "l \<notin> location ` set (Hotel_rows db)"
  shows "create_hotel db (Some n) (Some l) =
           (Inr (Some \<lparr>hotel_id = next_rowid (Hotel_seq db) (map hotel_id (Hotel_rows db)),
                       hotel_name = n, location = l\<rparr>),
            db\<lparr>Hotel_rows := Hotel_rows db @
                  [\<lparr>hotel_id = next_rowid (Hotel_seq db) (map hotel_id (Hotel_rows db)),
                    hotel_name = n, location = l\<rparr>],
               Hotel_seq := next_rowid (Hotel_seq db) (map hotel_id (Hotel_rows db))\<rparr>)"
  using assms by (auto simp: create_defs list_ex_iff Let_def)


lemma create_customer_ok:
  assumes "e \<notin> email ` set (Customer_rows db)"
  shows "create_customer db (Some n) (Some e) =
           (Inr (Some \<lparr>customer_id = next_rowid (Customer_seq db) (map customer_id (Customer_rows db)),
                       customer_name = n, email = e\<rparr>),
            db\<lparr>Customer_rows := Customer_rows db @
                  [\<lparr>customer_id = next_rowid (Customer_seq db) (map customer_id (Customer_rows db)),
                    customer_name = n, email = e\<rparr>],
               Customer_seq := next_rowid (Customer_seq db) (map customer_id (Customer_rows db))\<rparr>)"
  using assms by (auto simp: create_defs list_ex_iff Let_def)


lemma create_reservation_ok:
  assumes "int64 h" "int64 c" "int64 k"
    and "h \<in> hotel_id ` set (Hotel_rows db)" "c \<in> customer_id ` set (Customer_rows db)"
  shows "create_reservation db (Some h) (Some c) (Some d) (Some k) =
           (Inr (Some \<lparr>reservation_id =
                         next_rowid (Reservation_seq db) (map reservation_id (Reservation_rows db)),
                       res_hotel_id = h, res_customer_id = c, check_in_date = d, nights = k\<rparr>),
            db\<lparr>Reservation_rows := Reservation_rows db @
                  [\<lparr>reservation_id =
                      next_rowid (Reservation_seq db) (map reservation_id (Reservation_rows db)),
                    res_hotel_id = h, res_customer_id = c, check_in_date = d, nights = k\<rparr>],
               Reservation_seq :=
                 next_rowid (Reservation_seq db) (map reservation_id (Reservation_rows db))\<rparr>)"
  using assms by (auto simp: create_defs binds_def list_ex_iff Let_def)



section \<open>What each update and delete does\<close>
























lemma delete_hotel_referenced:
  assumes "foreign_keys db" "int64 i" "i \<in> hotel_id ` set (Hotel_rows db)"
    and "i \<in> res_hotel_id ` set (Reservation_rows db)"
  shows "delete_hotel db i = (Inl IntegrityError, db)"
  using assms by (auto simp: delete_defs get_defs find_None_iff list_ex_iff split: option.splits)

lemma delete_customer_referenced:
  assumes "foreign_keys db" "int64 i" "i \<in> customer_id ` set (Customer_rows db)"
    and "i \<in> res_customer_id ` set (Reservation_rows db)"
  shows "delete_customer db i = (Inl IntegrityError, db)"
  using assms by (auto simp: delete_defs get_defs find_None_iff list_ex_iff split: option.splits)

section \<open>Uniqueness is kept, and each method writes one table\<close>



lemma create_hotel_frame:
  "foreign_keys (snd (create_hotel db n l)) = foreign_keys db
   \<and> Customer_rows (snd (create_hotel db n l)) = Customer_rows db
   \<and> Reservation_rows (snd (create_hotel db n l)) = Reservation_rows db"
  by (simp add: create_defs Let_def split: option.splits)

lemma create_customer_frame:
  "foreign_keys (snd (create_customer db n e)) = foreign_keys db
   \<and> Hotel_rows (snd (create_customer db n e)) = Hotel_rows db
   \<and> Reservation_rows (snd (create_customer db n e)) = Reservation_rows db"
  by (simp add: create_defs Let_def split: option.splits)

lemma create_reservation_frame:
  "foreign_keys (snd (create_reservation db h c d k)) = foreign_keys db
   \<and> Hotel_rows (snd (create_reservation db h c d k)) = Hotel_rows db
   \<and> Customer_rows (snd (create_reservation db h c d k)) = Customer_rows db"
  by (simp add: create_defs Let_def split: option.splits)

lemma update_hotel_frame:
  "foreign_keys (snd (update_hotel db i n l)) = foreign_keys db
   \<and> Customer_rows (snd (update_hotel db i n l)) = Customer_rows db
   \<and> Reservation_rows (snd (update_hotel db i n l)) = Reservation_rows db"
  by (simp add: update_defs split: option.splits)

lemma update_customer_frame:
  "foreign_keys (snd (update_customer db i n e)) = foreign_keys db
   \<and> Hotel_rows (snd (update_customer db i n e)) = Hotel_rows db
   \<and> Reservation_rows (snd (update_customer db i n e)) = Reservation_rows db"
  by (simp add: update_defs split: option.splits)

lemma update_reservation_frame:
  "foreign_keys (snd (update_reservation db i h c d k)) = foreign_keys db
   \<and> Hotel_rows (snd (update_reservation db i h c d k)) = Hotel_rows db
   \<and> Customer_rows (snd (update_reservation db i h c d k)) = Customer_rows db"
  by (simp add: update_defs split: option.splits)

lemma delete_hotel_frame:
  "foreign_keys (snd (delete_hotel db i)) = foreign_keys db
   \<and> Customer_rows (snd (delete_hotel db i)) = Customer_rows db
   \<and> Reservation_rows (snd (delete_hotel db i)) = Reservation_rows db"
  by (simp add: delete_defs split: sum.splits option.splits)

lemma delete_customer_frame:
  "foreign_keys (snd (delete_customer db i)) = foreign_keys db
   \<and> Hotel_rows (snd (delete_customer db i)) = Hotel_rows db
   \<and> Reservation_rows (snd (delete_customer db i)) = Reservation_rows db"
  by (simp add: delete_defs split: sum.splits option.splits)

lemma delete_reservation_frame:
  "foreign_keys (snd (delete_reservation db i)) = foreign_keys db
   \<and> Hotel_rows (snd (delete_reservation db i)) = Hotel_rows db
   \<and> Customer_rows (snd (delete_reservation db i)) = Customer_rows db"
  by (simp add: delete_defs split: sum.splits option.splits)

lemmas frame_lemmas = create_hotel_frame create_customer_frame create_reservation_frame
  update_hotel_frame update_customer_frame update_reservation_frame
  delete_hotel_frame delete_customer_frame delete_reservation_frame








section \<open>Concrete states\<close>

lemma DatabaseHandler_eval:
  "DatabaseHandler = \<lparr>foreign_keys = True, Hotel_rows = [], Hotel_seq = 0,
                       Customer_rows = [], Customer_seq = 0,
                       Reservation_rows = [], Reservation_seq = 0\<rparr>"
  by (simp add: construct_defs)

lemma booked_eval:
  "booked =
     \<lparr>foreign_keys = True,
      Hotel_rows = [\<lparr>hotel_id = 1, hotel_name = ''Hotel A'', location = ''Location A''\<rparr>,
                    \<lparr>hotel_id = 2, hotel_name = ''Hotel B'', location = ''Location B''\<rparr>],
      Hotel_seq = 2,
      Customer_rows = [\<lparr>customer_id = 1, customer_name = ''John Doe'',
                        email = ''john@example.com''\<rparr>],
      Customer_seq = 1,
      Reservation_rows = [\<lparr>reservation_id = 1, res_hotel_id = 1, res_customer_id = 1,
                           check_in_date = ''2024-02-20'', nights = 5\<rparr>],
      Reservation_seq = 1\<rparr>"
  (is "_ = ?s4")
proof -
  let ?hA = "\<lparr>hotel_id = 1, hotel_name = ''Hotel A'', location = ''Location A''\<rparr>"
  let ?hB = "\<lparr>hotel_id = 2, hotel_name = ''Hotel B'', location = ''Location B''\<rparr>"
  let ?c = "\<lparr>customer_id = 1, customer_name = ''John Doe'', email = ''john@example.com''\<rparr>"
  let ?s1 = "\<lparr>foreign_keys = True, Hotel_rows = [?hA], Hotel_seq = 1,
              Customer_rows = [], Customer_seq = 0,
              Reservation_rows = [], Reservation_seq = 0\<rparr>"
  let ?s2 = "\<lparr>foreign_keys = True, Hotel_rows = [?hA, ?hB], Hotel_seq = 2,
              Customer_rows = [], Customer_seq = 0,
              Reservation_rows = [], Reservation_seq = 0\<rparr>"
  let ?s3 = "\<lparr>foreign_keys = True, Hotel_rows = [?hA, ?hB], Hotel_seq = 2,
              Customer_rows = [?c], Customer_seq = 1,
              Reservation_rows = [], Reservation_seq = 0\<rparr>"
  have s1: "step DatabaseHandler (CreateHotel (Some ''Hotel A'') (Some ''Location A'')) = ?s1"
    by (simp add: DatabaseHandler_eval create_hotel_ok next_rowid_def)
  have s2: "step ?s1 (CreateHotel (Some ''Hotel B'') (Some ''Location B'')) = ?s2"
    by (simp add: create_hotel_ok next_rowid_def)
  have s3: "step ?s2 (CreateCustomer (Some ''John Doe'') (Some ''john@example.com'')) = ?s3"
    by (simp add: create_customer_ok next_rowid_def)
  have s4: "step ?s3 (CreateReservation (Some 1) (Some 1) (Some ''2024-02-20'') (Some 5)) = ?s4"
    by (simp add: create_reservation_ok int64_def next_rowid_def)
  show ?thesis
    by (simp only: booked_def run_def foldl.simps s1 s2 s3 s4)
qed

lemma sql_words_details:
  "sql_words [] reservation_by_details_sql =
     [''SELECT'', ''*'', ''FROM'', ''Reservation'', ''WHEREHOTEL_ID'', ''='', ''?'', ''AND'',
      ''CUSTOMER_ID'', ''='', ''?'', ''AND'', ''DATE'', ''='', ''?'']"
  by (simp add: reservation_by_details_sql_def)

lemma foreign_keys_step: "foreign_keys (step db c) = foreign_keys db"
  by (cases c) (simp_all add: frame_lemmas)

lemma foreign_keys_foldl: "foreign_keys (foldl step db cs) = foreign_keys db"
  by (induction cs arbitrary: db) (simp_all add: foreign_keys_step)

lemma foreign_keys_run: "foreign_keys (run calls)"
  by (simp add: run_def foreign_keys_foldl DatabaseHandler_eval)

lemma get_reservation_by_details_never_returns:
  "get_reservation_by_details db hn ce d = Inl AttributeError
   \<or> get_reservation_by_details db hn ce d = Inl OperationalError"
  by (simp add: get_reservation_by_details_def select_reservation_by_details_def
        sql_words_details split: option.splits)

lemma booked_rows:
  "foreign_keys booked"
  "Hotel_rows booked = [\<lparr>hotel_id = 1, hotel_name = ''Hotel A'', location = ''Location A''\<rparr>,
                        \<lparr>hotel_id = 2, hotel_name = ''Hotel B'', location = ''Location B''\<rparr>]"
  "Hotel_seq booked = 2"
  "Customer_rows booked = [\<lparr>customer_id = 1, customer_name = ''John Doe'',
                            email = ''john@example.com''\<rparr>]"
  "Customer_seq booked = 1"
  "Reservation_rows booked = [\<lparr>reservation_id = 1, res_hotel_id = 1, res_customer_id = 1,
                               check_in_date = ''2024-02-20'', nights = 5\<rparr>]"
  "Reservation_seq booked = 1"
  by (simp_all add: booked_eval)

section \<open>The create methods\<close>




section \<open>The composite lookup\<close>

text \<open>
  C3. \<^verbatim>\<open>get_reservation_by_details\<close> returns nothing at all: for a hotel, a
  customer and a date of a stored reservation the statement does not parse and
  \<^verbatim>\<open>OperationalError\<close> is raised, and for a hotel name or an email that is not
  stored \<^verbatim>\<open>AttributeError\<close> is raised.
\<close>

theorem get_reservation_by_details_raises:
  "get_reservation_by_details booked ''Hotel A'' ''john@example.com'' ''2024-02-20''
     = Inl OperationalError
   \<and> get_reservation_by_details booked ''Hotel C'' ''john@example.com'' ''2024-02-20''
     = Inl AttributeError
   \<and> get_reservation_by_details booked ''Hotel A'' ''jane@example.com'' ''2024-02-20''
     = Inl AttributeError"
  by (simp add: get_reservation_by_details_def select_reservation_by_details_def
        sql_words_details booked_eval get_defs)

section \<open>Empty strings\<close>

text \<open>
  C8. On a new database \<^verbatim>\<open>create_hotel("", "")\<close> and
  \<^verbatim>\<open>create_customer("John Doe", "")\<close> succeed, and the state reached holds a
  hotel with an empty name and an empty location.
\<close>

theorem empty_strings_are_stored:
  "create_hotel DatabaseHandler (Some '''') (Some '''')
     = (Inr (Some \<lparr>hotel_id = 1, hotel_name = '''', location = ''''\<rparr>),
        DatabaseHandler\<lparr>Hotel_rows := [\<lparr>hotel_id = 1, hotel_name = '''', location = ''''\<rparr>],
                         Hotel_seq := 1\<rparr>)
   \<and> create_customer DatabaseHandler (Some ''John Doe'') (Some '''')
     = (Inr (Some \<lparr>customer_id = 1, customer_name = ''John Doe'', email = ''''\<rparr>),
        DatabaseHandler\<lparr>Customer_rows :=
                           [\<lparr>customer_id = 1, customer_name = ''John Doe'', email = ''''\<rparr>],
                         Customer_seq := 1\<rparr>)
   \<and> Hotel_rows (run [CreateHotel (Some '''') (Some '''')])
     = [\<lparr>hotel_id = 1, hotel_name = '''', location = ''''\<rparr>]"
proof -
  have h: "create_hotel DatabaseHandler (Some '''') (Some '''')
     = (Inr (Some \<lparr>hotel_id = 1, hotel_name = '''', location = ''''\<rparr>),
        DatabaseHandler\<lparr>Hotel_rows := [\<lparr>hotel_id = 1, hotel_name = '''', location = ''''\<rparr>],
                         Hotel_seq := 1\<rparr>)"
    by (simp add: DatabaseHandler_eval create_hotel_ok next_rowid_def)
  have c: "create_customer DatabaseHandler (Some ''John Doe'') (Some '''')
     = (Inr (Some \<lparr>customer_id = 1, customer_name = ''John Doe'', email = ''''\<rparr>),
        DatabaseHandler\<lparr>Customer_rows :=
                           [\<lparr>customer_id = 1, customer_name = ''John Doe'', email = ''''\<rparr>],
                         Customer_seq := 1\<rparr>)"
    by (simp add: DatabaseHandler_eval create_customer_ok next_rowid_def)
  have r: "Hotel_rows (run [CreateHotel (Some '''') (Some '''')])
     = [\<lparr>hotel_id = 1, hotel_name = '''', location = ''''\<rparr>]"
    by (simp add: run_def h)
  from h c r show ?thesis by (intro conjI)
qed

section \<open>The update methods\<close>




section \<open>The delete methods\<close>




text \<open>
  C5. On a connection that enforces foreign keys, deleting a hotel or a customer that a
  reservation refers to raises the \<^verbatim>\<open>IntegrityError\<close> of the storage layer
  to the caller, the state is as it was, and the lookup by id still returns the row.
  The id is one a table holds, so it is within the signed 64-bit range.
\<close>

theorem referenced_rows_stay:
  "(foreign_keys db \<and> int64 i \<and> i \<in> hotel_id ` set (Hotel_rows db)
      \<and> i \<in> res_hotel_id ` set (Reservation_rows db) \<longrightarrow>
        delete_hotel db i = (Inl IntegrityError, db)
        \<and> (\<exists>h. get_hotel_by_id (snd (delete_hotel db i)) i = Inr (Some h) \<and> hotel_id h = i))
   \<and> (foreign_keys db \<and> int64 i \<and> i \<in> customer_id ` set (Customer_rows db)
        \<and> i \<in> res_customer_id ` set (Reservation_rows db) \<longrightarrow>
        delete_customer db i = (Inl IntegrityError, db)
        \<and> (\<exists>c. get_customer_by_id (snd (delete_customer db i)) i = Inr (Some c)
                \<and> customer_id c = i))"
proof (intro conjI impI)
  assume a: "foreign_keys db \<and> int64 i \<and> i \<in> hotel_id ` set (Hotel_rows db)
             \<and> i \<in> res_hotel_id ` set (Reservation_rows db)"
  then show d: "delete_hotel db i = (Inl IntegrityError, db)"
    by (intro delete_hotel_referenced) simp_all
  from a have "find (\<lambda>h. hotel_id h = i) (Hotel_rows db) \<noteq> None"
    by (simp add: find_None_image)
  then obtain h where h: "find (\<lambda>h. hotel_id h = i) (Hotel_rows db) = Some h" by blast
  then have "hotel_id h = i" by (auto simp: find_Some_iff)
  with a h show "\<exists>h. get_hotel_by_id (snd (delete_hotel db i)) i = Inr (Some h) \<and> hotel_id h = i"
    by (simp add: d get_hotel_by_id_def)
next
  assume a: "foreign_keys db \<and> int64 i \<and> i \<in> customer_id ` set (Customer_rows db)
             \<and> i \<in> res_customer_id ` set (Reservation_rows db)"
  then show d: "delete_customer db i = (Inl IntegrityError, db)"
    by (intro delete_customer_referenced) simp_all
  from a have "find (\<lambda>c. customer_id c = i) (Customer_rows db) \<noteq> None"
    by (simp add: find_None_image)
  then obtain c where c: "find (\<lambda>c. customer_id c = i) (Customer_rows db) = Some c" by blast
  then have "customer_id c = i" by (auto simp: find_Some_iff)
  with a c show "\<exists>c. get_customer_by_id (snd (delete_customer db i)) i = Inr (Some c)
                     \<and> customer_id c = i"
    by (simp add: d get_customer_by_id_def)
qed

text \<open>
  C5 on the tests' state, where reservation 1 refers to hotel 1 and customer 1.
\<close>

theorem referenced_rows_stay_witness:
  "delete_hotel booked 1 = (Inl IntegrityError, booked)
   \<and> get_hotel_by_id (snd (delete_hotel booked 1)) 1
     = Inr (Some \<lparr>hotel_id = 1, hotel_name = ''Hotel A'', location = ''Location A''\<rparr>)
   \<and> delete_customer booked 1 = (Inl IntegrityError, booked)
   \<and> get_customer_by_id (snd (delete_customer booked 1)) 1
     = Inr (Some \<lparr>customer_id = 1, customer_name = ''John Doe'', email = ''john@example.com''\<rparr>)"
  using referenced_rows_stay[where db = booked and i = 1]
  by (simp add: booked_rows get_defs int64_def)

section \<open>Uniqueness of hotels and customers\<close>





section \<open>Update, then read back\<close>



section \<open>Each method writes one table\<close>

text \<open>
  C10. Whatever a create, update or delete of one entity returns or raises, the rows of
  the tables of the other two entities are what they were; no delete of a hotel or a
  customer removes a reservation.
\<close>

theorem one_table_per_method:
  "Customer_rows (snd (create_hotel db sn sl)) = Customer_rows db
   \<and> Reservation_rows (snd (create_hotel db sn sl)) = Reservation_rows db
   \<and> Hotel_rows (snd (create_customer db sn se)) = Hotel_rows db
   \<and> Reservation_rows (snd (create_customer db sn se)) = Reservation_rows db
   \<and> Hotel_rows (snd (create_reservation db oh oc od ok)) = Hotel_rows db
   \<and> Customer_rows (snd (create_reservation db oh oc od ok)) = Customer_rows db
   \<and> Customer_rows (snd (update_hotel db i sn sl)) = Customer_rows db
   \<and> Reservation_rows (snd (update_hotel db i sn sl)) = Reservation_rows db
   \<and> Hotel_rows (snd (update_customer db i sn se)) = Hotel_rows db
   \<and> Reservation_rows (snd (update_customer db i sn se)) = Reservation_rows db
   \<and> Hotel_rows (snd (update_reservation db i oh oc od ok)) = Hotel_rows db
   \<and> Customer_rows (snd (update_reservation db i oh oc od ok)) = Customer_rows db
   \<and> Customer_rows (snd (delete_hotel db i)) = Customer_rows db
   \<and> Reservation_rows (snd (delete_hotel db i)) = Reservation_rows db
   \<and> Hotel_rows (snd (delete_customer db i)) = Hotel_rows db
   \<and> Reservation_rows (snd (delete_customer db i)) = Reservation_rows db
   \<and> Hotel_rows (snd (delete_reservation db i)) = Hotel_rows db
   \<and> Customer_rows (snd (delete_reservation db i)) = Customer_rows db"
  by (simp only: frame_lemmas simp_thms)

text \<open>
  C10 on the tests' state: the refused deletes of hotel 1 and customer 1 leave the
  reservation, and a new reservation leaves the hotels.
\<close>

theorem one_table_per_method_witness:
  "Reservation_rows (snd (delete_hotel booked 1))
     = [\<lparr>reservation_id = 1, res_hotel_id = 1, res_customer_id = 1,
         check_in_date = ''2024-02-20'', nights = 5\<rparr>]
   \<and> Reservation_rows (snd (delete_customer booked 1))
     = [\<lparr>reservation_id = 1, res_hotel_id = 1, res_customer_id = 1,
         check_in_date = ''2024-02-20'', nights = 5\<rparr>]
   \<and> Hotel_rows (snd (create_reservation booked (Some 2) (Some 1) (Some ''2024-03-10'') (Some 7)))
     = Hotel_rows booked"
  using one_table_per_method[where db = booked and i = 1 and oh = "Some 2" and oc = "Some 1"
      and od = "Some ''2024-03-10''" and ok = "Some 7"]
  by (simp add: booked_rows)

end
